theory Spec2Isabelle
  imports Complex_Main
begin

section \<open>Container statistics: \<open>ContainerManager.getContainerStats\<close>\<close>

text \<open>
  The engine's stats sample is a nested JSON object. Every numeric field the code reads
  is modelled as \<open>real option\<close>: \<open>None\<close> stands for a field that is absent
  (\<open>undefined\<close>) and, for a computed value, for a result that is not a finite number
  (\<open>NaN\<close>, \<open>Infinity\<close>). JavaScript numbers are IEEE doubles; the model computes with
  exact reals, which agrees with the doubles on the concrete samples evaluated below
  (all of them small integers and exact quotients).
\<close>

type_synonym jsnum = "real option"

record stats_sample =
  cpu_total_usage :: jsnum        \<comment> \<open>\<open>stats.cpu_stats.cpu_usage.total_usage\<close>\<close>
  cpu_system_usage :: jsnum       \<comment> \<open>\<open>stats.cpu_stats.system_cpu_usage\<close>\<close>
  online_cpus :: jsnum            \<comment> \<open>\<open>stats.cpu_stats.online_cpus\<close>\<close>
  precpu_total_usage :: jsnum     \<comment> \<open>\<open>stats.precpu_stats.cpu_usage?.total_usage\<close>\<close>
  precpu_system_usage :: jsnum    \<comment> \<open>\<open>stats.precpu_stats.system_cpu_usage\<close>\<close>
  memory_usage :: jsnum           \<comment> \<open>\<open>stats.memory_stats.usage\<close>\<close>
  memory_limit :: jsnum           \<comment> \<open>\<open>stats.memory_stats.limit\<close>\<close>

text \<open>\<open>x || d\<close> on a numeric field: \<open>undefined\<close>, \<open>NaN\<close> and \<open>0\<close> are falsy.\<close>

definition js_or :: "jsnum \<Rightarrow> real \<Rightarrow> jsnum" where
  "js_or x d = (case x of None \<Rightarrow> Some d | Some v \<Rightarrow> if v = 0 then Some d else Some v)"

text \<open>Arithmetic: an operand that is not a number makes the result not a number.\<close>

definition js_sub :: "jsnum \<Rightarrow> jsnum \<Rightarrow> jsnum" where
  "js_sub a b = (case a of None \<Rightarrow> None | Some x \<Rightarrow> (case b of None \<Rightarrow> None | Some y \<Rightarrow> Some (x - y)))"

definition js_mul :: "jsnum \<Rightarrow> jsnum \<Rightarrow> jsnum" where
  "js_mul a b = (case a of None \<Rightarrow> None | Some x \<Rightarrow> (case b of None \<Rightarrow> None | Some y \<Rightarrow> Some (x * y)))"

text \<open>
  Division: JavaScript yields \<open>NaN\<close> or an infinity for a zero divisor; the model
  returns \<open>None\<close> (not a finite number) there, so that a division by zero is visible
  in the result instead of being HOL's \<open>x / 0 = 0\<close>.
\<close>

definition js_div :: "jsnum \<Rightarrow> jsnum \<Rightarrow> jsnum" where
  "js_div a b = (case a of None \<Rightarrow> None | Some x \<Rightarrow>
     (case b of None \<Rightarrow> None | Some y \<Rightarrow> if y = 0 then None else Some (x / y)))"

text \<open>\<open>a > 0\<close>: false when \<open>a\<close> is not a number.\<close>

definition js_pos :: "jsnum \<Rightarrow> bool" where
  "js_pos a = (case a of None \<Rightarrow> False | Some x \<Rightarrow> 0 < x)"

definition cpuDelta :: "stats_sample \<Rightarrow> jsnum" where
  "cpuDelta s = js_sub (cpu_total_usage s) (js_or (precpu_total_usage s) 0)"

definition systemDelta :: "stats_sample \<Rightarrow> jsnum" where
  "systemDelta s = js_sub (cpu_system_usage s) (js_or (precpu_system_usage s) 0)"

text \<open>
  The numbers \<open>getContainerStats\<close> computes. The returned object renders the two
  percentages with \<open>toFixed(2)\<close> and the two byte counts with \<open>formatBytes\<close>
  (and adds the network counters and a timestamp); the model keeps the numbers.
\<close>

record container_stats =
  cpuPercent :: jsnum
  memoryUsage :: jsnum
  memoryLimit :: jsnum
  memoryPercent :: jsnum

definition getContainerStats :: "stats_sample \<Rightarrow> container_stats" where
  "getContainerStats s =
     (let cpuPercent = (if js_pos (systemDelta s)
                        then js_mul (js_div (cpuDelta s) (systemDelta s)) (Some 100)
                        else Some 0);
          memoryUsage = js_or (memory_usage s) 0;
          memoryLimit = js_or (memory_limit s) 0;
          memoryPercent = (if js_pos memoryLimit
                           then js_mul (js_div memoryUsage memoryLimit) (Some 100)
                           else Some 0)
      in \<lparr> cpuPercent = cpuPercent, memoryUsage = memoryUsage,
           memoryLimit = memoryLimit, memoryPercent = memoryPercent \<rparr>)"

text \<open>The sibling computation in the Windows console handler (\<open>calculateCPUPercent\<close>).\<close>

definition calculateCPUPercent :: "stats_sample \<Rightarrow> jsnum" where
  "calculateCPUPercent s =
     (if js_pos (systemDelta s) \<and> js_pos (cpuDelta s)
      then (let cpuCount = js_or (online_cpus s) 1
            in js_mul (js_mul (js_div (cpuDelta s) (systemDelta s)) cpuCount) (Some 100))
      else Some 0)"

text \<open>A sample of a container that used 200 of 1000 elapsed system ticks on a 4-CPU host.\<close>

definition sample4 :: stats_sample where
  "sample4 = \<lparr> cpu_total_usage = Some 400, cpu_system_usage = Some 2000,
               online_cpus = Some 4, precpu_total_usage = Some 200,
               precpu_system_usage = Some 1000, memory_usage = Some 50,
               memory_limit = Some 200 \<rparr>"

section \<open>Resource translation: \<open>parseMemory\<close> and the \<open>HostConfig\<close> of \<open>createContainer\<close>\<close>




text \<open>The regular expression's classes: \<open>\d\<close> is \<open>[0-9]\<close>, and \<open>[bkmg]\<close>.\<close>

definition is_digit :: "char \<Rightarrow> bool" where
  "is_digit c = (48 \<le> (of_char c :: nat) \<and> (of_char c :: nat) \<le> 57)"










subsection \<open>The shapes the specification speaks of\<close>


text \<open>The same shape with the unit letter in either case, and the unit's multiplier.\<close>

definition spec_unit :: "char \<Rightarrow> bool" where
  "spec_unit u = (u \<in> set ''bkmgBKMG'')"


definition is_memory_shape :: "string \<Rightarrow> bool" where
  "is_memory_shape s =
     (let ds = (if s \<noteq> [] \<and> spec_unit (last s) then butlast s else s)
      in ds \<noteq> [] \<and> list_all is_digit ds)"

lemmas js_arith_defs = js_or_def js_sub_def js_mul_def js_div_def js_pos_def

section \<open>Theorems about the statistics\<close>

text \<open>
  C3. The claim: for every stats sample, \<open>getContainerStats\<close> computes the CPU
  percentage as \<open>(cpuDelta / systemDelta) * onlineCPUs * 100\<close>. On the 4-CPU sample
  the deltas are 200 and 1000, so the claimed value is 80; \<open>getContainerStats\<close>
  reports 20, because it never reads \<open>online_cpus\<close>, while the sibling
  \<open>calculateCPUPercent\<close> reports the claimed 80.
\<close>

theorem getContainerStats_omits_online_cpus:
  "cpuDelta sample4 = Some 200 \<and> systemDelta sample4 = Some 1000
   \<and> online_cpus sample4 = Some 4
   \<and> cpuPercent (getContainerStats sample4) = Some 20
   \<and> js_mul (js_mul (js_div (cpuDelta sample4) (systemDelta sample4)) (online_cpus sample4))
         (Some 100) = Some 80
   \<and> calculateCPUPercent sample4 = Some 80"
  by (simp add: getContainerStats_def calculateCPUPercent_def cpuDelta_def systemDelta_def
      sample4_def js_arith_defs)

text \<open>
  C7. The percentage computations never divide by zero. Whenever \<open>systemDelta\<close> is
  not positive (zero, negative, or not a number) the CPU percentage is exactly 0;
  whenever the memory limit is 0 (or absent) the memory percentage is exactly 0; and
  in every case neither percentage is the result of a division by zero: the memory
  percentage is always a finite number, and so is the CPU percentage whenever the
  engine supplied the current counters.
\<close>

theorem getContainerStats_no_division_by_zero:
  "(\<not> js_pos (systemDelta s) \<longrightarrow> cpuPercent (getContainerStats s) = Some 0)
   \<and> (systemDelta s = Some d \<and> d \<le> 0 \<longrightarrow> cpuPercent (getContainerStats s) = Some 0)
   \<and> (memory_limit s = Some 0 \<or> memory_limit s = None
        \<longrightarrow> memoryPercent (getContainerStats s) = Some 0)
   \<and> memoryPercent (getContainerStats s) \<noteq> None
   \<and> (cpu_total_usage s \<noteq> None \<and> cpu_system_usage s \<noteq> None
        \<longrightarrow> cpuPercent (getContainerStats s) \<noteq> None)"
  by (auto simp: getContainerStats_def cpuDelta_def systemDelta_def js_arith_defs Let_def
      split: option.splits if_splits)

theorem getContainerStats_no_division_by_zero_witness:
  "\<not> js_pos (systemDelta (sample4\<lparr>cpu_system_usage := Some 1000\<rparr>))
   \<and> systemDelta (sample4\<lparr>cpu_system_usage := Some 1000\<rparr>) = Some 0
   \<and> cpuPercent (getContainerStats (sample4\<lparr>cpu_system_usage := Some 1000\<rparr>)) = Some 0
   \<and> memory_limit (sample4\<lparr>memory_limit := Some 0\<rparr>) = Some 0
   \<and> memoryPercent (getContainerStats (sample4\<lparr>memory_limit := Some 0\<rparr>)) = Some 0
   \<and> cpuPercent (getContainerStats sample4) \<noteq> None"
  using getContainerStats_no_division_by_zero [of "sample4\<lparr>cpu_system_usage := Some 1000\<rparr>" 0]
    getContainerStats_no_division_by_zero [of "sample4\<lparr>memory_limit := Some 0\<rparr>"]
    getContainerStats_no_division_by_zero [of sample4]
  by (simp add: systemDelta_def sample4_def js_arith_defs)

section \<open>Lemmas about \<open>parseMemory\<close>\<close>




lemma unit_not_digit: "spec_unit c \<Longrightarrow> \<not> is_digit c"
  by (auto simp: is_digit_def spec_unit_def)













lemma is_memory_shape_iff:
  "is_memory_shape s \<longleftrightarrow>
     (\<exists>ds u. s = ds @ u \<and> ds \<noteq> [] \<and> list_all is_digit ds
        \<and> (u = [] \<or> (\<exists>c. spec_unit c \<and> u = [c])))"
proof
  assume sh: "is_memory_shape s"
  show "\<exists>ds u. s = ds @ u \<and> ds \<noteq> [] \<and> list_all is_digit ds
        \<and> (u = [] \<or> (\<exists>c. spec_unit c \<and> u = [c]))"
  proof (cases "s \<noteq> [] \<and> spec_unit (last s)")
    case True
    then have "s = butlast s @ [last s]" by simp
    moreover have "butlast s \<noteq> []" "list_all is_digit (butlast s)"
      using sh True unfolding is_memory_shape_def Let_def by (simp_all)
    ultimately show ?thesis using True by blast
  next
    case False
    then have "s \<noteq> []" "list_all is_digit s"
      using sh unfolding is_memory_shape_def Let_def by auto
    then have "s = s @ [] \<and> s \<noteq> [] \<and> list_all is_digit s" by simp
    then show ?thesis by blast
  qed
next
  assume "\<exists>ds u. s = ds @ u \<and> ds \<noteq> [] \<and> list_all is_digit ds
        \<and> (u = [] \<or> (\<exists>c. spec_unit c \<and> u = [c]))"
  then obtain ds u where s: "s = ds @ u" and ne: "ds \<noteq> []" and dig: "list_all is_digit ds"
    and u: "u = [] \<or> (\<exists>c. spec_unit c \<and> u = [c])" by blast
  from u show "is_memory_shape s"
  proof
    assume "u = []"
    then have sd: "s = ds" using s by simp
    have "is_digit (last ds)" using dig ne by (simp add: list_all_iff)
    then have "\<not> spec_unit (last ds)" using unit_not_digit by blast
    then show ?thesis unfolding is_memory_shape_def sd Let_def using dig ne
      by (simp)
  next
    assume "\<exists>c. spec_unit c \<and> u = [c]"
    then obtain c where c: "spec_unit c" "u = [c]" by blast
    show ?thesis unfolding is_memory_shape_def s c(2) Let_def using dig ne c(1)
      by (simp)
  qed
qed

section \<open>Theorems about the resource translation\<close>




end
